theory Spec2Isabelle
  imports Complex_Main
begin

section \<open>Go's float64\<close>

text \<open>
  The scores, values and targets of the program are Go \<^verbatim>\<open>float64\<close>s, that is IEEE 754
  binary64 numbers. A finite one is an exact rational, so the model keeps that rational;
  the negative zero, the two infinities and NaN are values of their own. \<open>Finite 0\<close> is
  the positive zero. Every arithmetic operation computes the exact result and rounds it
  once, to the nearest representable number, ties to the even mantissa (the only rounding
  mode Go has). Operations are not fused: each one rounds on its own, as in the code the Go
  compiler makes for amd64 (the language allows a compiler to fuse \<^verbatim>\<open>x*y + z\<close> into one
  rounding, which can change the last bit of a sum of products).
\<close>

datatype float64 = Finite rat | NegZero | PosInf | NegInf | NaN

text \<open>The number of binary digits of a positive integer (0 for the others).\<close>

function bit_length :: "int \<Rightarrow> int" where
  "bit_length n = (if n \<le> 0 then 0 else 1 + bit_length (n div 2))"
  by pat_completeness auto
termination
  by (relation "measure nat") auto

declare bit_length.simps [simp del]

text \<open>\<open>floor_log2 a\<close> is the integer \<open>e\<close> with \<open>2^e \<le> a < 2^(e+1)\<close>, for a positive \<open>a\<close>.\<close>

definition floor_log2 :: "rat \<Rightarrow> int" where
  "floor_log2 a =
     (if 1 \<le> a then bit_length \<lfloor>a\<rfloor> - 1
      else - bit_length (\<lceil>1 / a\<rceil> - 1))"

definition round_half_even :: "rat \<Rightarrow> int" where
  "round_half_even m =
     (let f = \<lfloor>m\<rfloor>; d = m - of_int f
      in if d < 1 / 2 then f else if 1 / 2 < d then f + 1
         else if even f then f else f + 1)"

text \<open>
  Rounding an exact result to binary64: 53 significant bits, the exponent of the unit in
  the last place never below \<open>-1074\<close> (the subnormal numbers), overflow to an infinity
  when the rounded magnitude reaches \<open>2^1024\<close>, underflow to a zero that keeps the sign.
\<close>

definition round64 :: "rat \<Rightarrow> float64" where
  "round64 q =
     (if q = 0 then Finite 0
      else
        let a = \<bar>q\<bar>;
            e = max (floor_log2 a) (- 1022);
            n = round_half_even (a * 2 powi (52 - e));
            r = of_int n * 2 powi (e - 52)
        in if 2 ^ 1024 \<le> r then (if q < 0 then NegInf else PosInf)
           else if n = 0 then (if q < 0 then NegZero else Finite 0)
           else Finite (if q < 0 then - r else r))"

fun is_nan :: "float64 \<Rightarrow> bool" where
  "is_nan NaN = True"
| "is_nan _ = False"

fun is_inf :: "float64 \<Rightarrow> bool" where
  "is_inf PosInf = True"
| "is_inf NegInf = True"
| "is_inf _ = False"

fun is_zero :: "float64 \<Rightarrow> bool" where
  "is_zero (Finite q) = (q = 0)"
| "is_zero NegZero = True"
| "is_zero _ = False"

fun is_finite :: "float64 \<Rightarrow> bool" where
  "is_finite (Finite q) = True"
| "is_finite NegZero = True"
| "is_finite _ = False"

fun sign_bit :: "float64 \<Rightarrow> bool" where
  "sign_bit (Finite q) = (q < 0)"
| "sign_bit NegZero = True"
| "sign_bit NegInf = True"
| "sign_bit _ = False"

text \<open>The rational a finite number stands for (read only where the number is finite).\<close>

fun rat_of :: "float64 \<Rightarrow> rat" where
  "rat_of (Finite q) = q"
| "rat_of _ = 0"

definition signed_inf :: "bool \<Rightarrow> float64" where
  "signed_inf neg = (if neg then NegInf else PosInf)"

definition signed_zero :: "bool \<Rightarrow> float64" where
  "signed_zero neg = (if neg then NegZero else Finite 0)"

text \<open>Go's \<^verbatim>\<open>x + y\<close>.\<close>

fun fadd :: "float64 \<Rightarrow> float64 \<Rightarrow> float64" where
  "fadd NaN _ = NaN"
| "fadd _ NaN = NaN"
| "fadd PosInf NegInf = NaN"
| "fadd NegInf PosInf = NaN"
| "fadd PosInf _ = PosInf"
| "fadd _ PosInf = PosInf"
| "fadd NegInf _ = NegInf"
| "fadd _ NegInf = NegInf"
| "fadd NegZero y = y"
| "fadd x NegZero = x"
| "fadd (Finite p) (Finite q) = round64 (p + q)"

text \<open>Go's \<^verbatim>\<open>x * y\<close>.\<close>

definition fmul :: "float64 \<Rightarrow> float64 \<Rightarrow> float64" where
  "fmul x y =
     (if is_nan x \<or> is_nan y then NaN
      else if is_inf x \<or> is_inf y then
        (if is_zero x \<or> is_zero y then NaN else signed_inf (sign_bit x \<noteq> sign_bit y))
      else if is_zero x \<or> is_zero y then signed_zero (sign_bit x \<noteq> sign_bit y)
      else round64 (rat_of x * rat_of y))"

text \<open>
  Go's \<^verbatim>\<open>x / y\<close> on float64: a division by zero does not panic, it gives an infinity
  (or NaN for \<^verbatim>\<open>0 / 0\<close>).
\<close>

definition fdiv :: "float64 \<Rightarrow> float64 \<Rightarrow> float64" where
  "fdiv x y =
     (if is_nan x \<or> is_nan y then NaN
      else if is_inf x then
        (if is_inf y then NaN else signed_inf (sign_bit x \<noteq> sign_bit y))
      else if is_inf y then signed_zero (sign_bit x \<noteq> sign_bit y)
      else if is_zero y then
        (if is_zero x then NaN else signed_inf (sign_bit x \<noteq> sign_bit y))
      else if is_zero x then signed_zero (sign_bit x \<noteq> sign_bit y)
      else round64 (rat_of x / rat_of y))"

text \<open>Go's \<^verbatim>\<open>x <= y\<close>, \<^verbatim>\<open>x >= y\<close> and \<^verbatim>\<open>x == y\<close>: false whenever an operand is NaN.\<close>

fun fle :: "float64 \<Rightarrow> float64 \<Rightarrow> bool" where
  "fle NaN _ = False"
| "fle _ NaN = False"
| "fle NegInf _ = True"
| "fle _ PosInf = True"
| "fle PosInf _ = False"
| "fle _ NegInf = False"
| "fle x y = (rat_of x \<le> rat_of y)"

definition fge :: "float64 \<Rightarrow> float64 \<Rightarrow> bool" where
  "fge x y = fle y x"

fun feq :: "float64 \<Rightarrow> float64 \<Rightarrow> bool" where
  "feq NaN _ = False"
| "feq _ NaN = False"
| "feq PosInf y = (y = PosInf)"
| "feq NegInf y = (y = NegInf)"
| "feq _ PosInf = False"
| "feq _ NegInf = False"
| "feq x y = (rat_of x = rat_of y)"

text \<open>The conversion \<^verbatim>\<open>float64(n)\<close> of an integer.\<close>

definition float64_of_int :: "int \<Rightarrow> float64" where
  "float64_of_int n = round64 (of_int n)"

section \<open>Clock readings\<close>

text \<open>
  A \<^verbatim>\<open>time.Time\<close> is kept as the civil fields that \<^verbatim>\<open>Format\<close> prints. The program
  reads the clock with \<^verbatim>\<open>time.Now()\<close>; the model takes each reading as an argument of
  the operation that makes it, in the order the source reads them.
\<close>

record Time =
  year :: int
  month :: int
  day :: int
  hour :: int
  minute :: int
  second :: int
  nanosecond :: int

text \<open>The zero value \<^verbatim>\<open>time.Time{}\<close>: January 1, year 1, 00:00:00 UTC.\<close>

definition zero_Time :: Time where
  "zero_Time = \<lparr>year = 1, month = 1, day = 1, hour = 0, minute = 0, second = 0,
                 nanosecond = 0\<rparr>"

section \<open>Package metrics\<close>

type_synonym MetricType = string

definition TypeVulnerability :: MetricType where "TypeVulnerability = ''vulnerability''"
definition TypeIncident :: MetricType where "TypeIncident = ''incident''"
definition TypeCompliance :: MetricType where "TypeCompliance = ''compliance''"
definition TypeDetection :: MetricType where "TypeDetection = ''detection''"
definition TypeResponse :: MetricType where "TypeResponse = ''response''"
definition TypePrevention :: MetricType where "TypePrevention = ''prevention''"
definition TypeTraining :: MetricType where "TypeTraining = ''training''"
definition TypeRisk :: MetricType where "TypeRisk = ''risk''"

text \<open>
  The structs of the package. Several of them have fields of the same name, so each
  record prefixes its fields: \<open>sm_\<close> for \<^verbatim>\<open>SecurityMetric\<close>, \<open>kpi_\<close> for \<^verbatim>\<open>KPI\<close>,
  \<open>ms_\<close> for \<^verbatim>\<open>MetricsSummary\<close>.
\<close>

record SecurityMetric =
  sm_ID :: string
  sm_Name :: string
  sm_Type :: MetricType
  sm_Value :: float64
  sm_Unit :: string
  sm_Target :: float64
  sm_Status :: string
  sm_Timestamp :: Time
  sm_Description :: string
  sm_Category :: string

type_synonym KPIKey = string

record KPI =
  kpi_Key :: KPIKey
  kpi_Name :: string
  kpi_Description :: string
  kpi_Value :: float64
  kpi_Target :: float64
  kpi_Unit :: string
  kpi_Status :: string
  kpi_Trend :: string
  kpi_LastUpdated :: Time
  kpi_Category :: string

record MetricsSummary =
  ms_TotalMetrics :: int
  ms_TotalKPIS :: int
  ms_ComplianceScore :: float64
  ms_RiskScore :: float64
  ms_OverallHealth :: string
  ms_LastUpdated :: Time

text \<open>
  \<^verbatim>\<open>MetricsCollector\<close>. Its \<^verbatim>\<open>summary\<close> field is a pointer to a summary that only the
  collector's methods write; the record holds the summary it points to.
\<close>

record MetricsCollector =
  metrics :: "SecurityMetric list"
  kpis :: "KPI list"
  summary :: MetricsSummary

text \<open>\<^verbatim>\<open>&MetricsSummary{}\<close>: every field has its zero value.\<close>

definition zero_MetricsSummary :: MetricsSummary where
  "zero_MetricsSummary =
     \<lparr>ms_TotalMetrics = 0, ms_TotalKPIS = 0, ms_ComplianceScore = Finite 0,
      ms_RiskScore = Finite 0, ms_OverallHealth = [], ms_LastUpdated = zero_Time\<rparr>"

definition NewMetricsCollector :: MetricsCollector where
  "NewMetricsCollector = \<lparr>metrics = [], kpis = [], summary = zero_MetricsSummary\<rparr>"

text \<open>\<^verbatim>\<open>GetMetricByType\<close>: the loop appends every metric of the type to \<^verbatim>\<open>result\<close>.\<close>

fun GetMetricByType_loop ::
  "SecurityMetric list \<Rightarrow> MetricType \<Rightarrow> SecurityMetric list \<Rightarrow> SecurityMetric list" where
  "GetMetricByType_loop [] metricType result = result"
| "GetMetricByType_loop (metric # rest) metricType result =
     GetMetricByType_loop rest metricType
       (if sm_Type metric = metricType then result @ [metric] else result)"

definition GetMetricByType :: "MetricsCollector \<Rightarrow> MetricType \<Rightarrow> SecurityMetric list" where
  "GetMetricByType c metricType = GetMetricByType_loop (metrics c) metricType []"

text \<open>
  \<^verbatim>\<open>GetComplianceScore\<close>: the loop carries \<^verbatim>\<open>total\<close> (here \<open>total'\<close>) and \<^verbatim>\<open>weighted\<close>,
  both float64.
\<close>

fun GetComplianceScore_loop ::
  "SecurityMetric list \<Rightarrow> float64 \<times> float64 \<Rightarrow> float64 \<times> float64" where
  "GetComplianceScore_loop [] (total', weighted) = (total', weighted)"
| "GetComplianceScore_loop (metric # rest) (total', weighted) =
     GetComplianceScore_loop rest
       (fadd total' (Finite 1),
        fadd weighted (fmul (fdiv (sm_Value metric) (sm_Target metric)) (Finite 100)))"

definition GetComplianceScore :: "MetricsCollector \<Rightarrow> float64" where
  "GetComplianceScore c =
     (case GetComplianceScore_loop (GetMetricByType c TypeCompliance) (Finite 0, Finite 0) of
        (total', weighted) \<Rightarrow>
          if feq total' (Finite 0) then Finite 0 else fdiv weighted total')"

fun GetRiskScore_loop ::
  "SecurityMetric list \<Rightarrow> float64 \<times> float64 \<Rightarrow> float64 \<times> float64" where
  "GetRiskScore_loop [] (total', weighted) = (total', weighted)"
| "GetRiskScore_loop (metric # rest) (total', weighted) =
     GetRiskScore_loop rest (fadd total' (Finite 1), fadd weighted (sm_Value metric))"

definition GetRiskScore :: "MetricsCollector \<Rightarrow> float64" where
  "GetRiskScore c =
     (case GetRiskScore_loop (GetMetricByType c TypeRisk) (Finite 0, Finite 0) of
        (total', weighted) \<Rightarrow>
          if feq total' (Finite 0) then Finite 0 else fdiv weighted total')"

definition determineHealth :: "float64 \<Rightarrow> float64 \<Rightarrow> string" where
  "determineHealth compliance risk =
     (if fge compliance (Finite 90) \<and> fle risk (Finite 30) then ''HEALTHY''
      else if fge compliance (Finite 70) \<and> fle risk (Finite 50) then ''GOOD''
      else if fge compliance (Finite 50) \<and> fle risk (Finite 70) then ''FAIR''
      else ''POOR'')"

text \<open>
  \<^verbatim>\<open>updateSummary\<close> writes the six fields in order; the health is computed from the two
  scores just stored. \<open>now\<close> is its reading of the clock.
\<close>

definition updateSummary :: "Time \<Rightarrow> MetricsCollector \<Rightarrow> MetricsCollector" where
  "updateSummary now c =
     (let s1 = (summary c)\<lparr>ms_TotalMetrics := int (length (metrics c))\<rparr>;
          s2 = s1\<lparr>ms_TotalKPIS := int (length (kpis c))\<rparr>;
          s3 = s2\<lparr>ms_ComplianceScore := GetComplianceScore c\<rparr>;
          s4 = s3\<lparr>ms_RiskScore := GetRiskScore c\<rparr>;
          s5 = s4\<lparr>ms_OverallHealth :=
                    determineHealth (ms_ComplianceScore s4) (ms_RiskScore s4)\<rparr>;
          s6 = s5\<lparr>ms_LastUpdated := now\<rparr>
      in c\<lparr>summary := s6\<rparr>)"

text \<open>
  \<^verbatim>\<open>AddMetric\<close> and \<^verbatim>\<open>AddKPI\<close>: \<open>now1\<close> stamps the record, \<open>now2\<close> is the reading
  \<^verbatim>\<open>updateSummary\<close> makes.
\<close>

definition AddMetric :: "Time \<Rightarrow> Time \<Rightarrow> SecurityMetric \<Rightarrow> MetricsCollector \<Rightarrow> MetricsCollector" where
  "AddMetric now1 now2 metric c =
     updateSummary now2 (c\<lparr>metrics := metrics c @ [metric\<lparr>sm_Timestamp := now1\<rparr>]\<rparr>)"

definition AddKPI :: "Time \<Rightarrow> Time \<Rightarrow> KPI \<Rightarrow> MetricsCollector \<Rightarrow> MetricsCollector" where
  "AddKPI now1 now2 kpi c =
     updateSummary now2 (c\<lparr>kpis := kpis c @ [kpi\<lparr>kpi_LastUpdated := now1\<rparr>]\<rparr>)"

definition GetSummary :: "MetricsCollector \<Rightarrow> MetricsSummary" where
  "GetSummary c = summary c"

text \<open>
  The states a caller can bring a collector to: the fresh one, and any state followed by
  an \<^verbatim>\<open>AddMetric\<close> or an \<^verbatim>\<open>AddKPI\<close>.
\<close>

inductive reachable :: "MetricsCollector \<Rightarrow> bool" where
  fresh: "reachable NewMetricsCollector"
| add_metric: "reachable c \<Longrightarrow> reachable (AddMetric now1 now2 metric c)"
| add_kpi: "reachable c \<Longrightarrow> reachable (AddKPI now1 now2 kpi c)"

section \<open>Formatting\<close>

definition newline :: string where
  "newline = [CHR 0x0A]"

text \<open>The character of a decimal digit \<open>d\<close>, \<open>0 \<le> d < 10\<close>.\<close>

definition digit :: "int \<Rightarrow> char" where
  "digit d = ''0123456789'' ! nat (d mod 10)"

text \<open>The decimal digits of a natural number, most significant first.\<close>

function digits :: "int \<Rightarrow> string" where
  "digits n = (if n < 10 then [digit n] else digits (n div 10) @ [digit (n mod 10)])"
  by pat_completeness auto
termination
  by (relation "measure nat") auto

declare digits.simps [simp del]

text \<open>
  \<^verbatim>\<open>appendInt(b, x, width)\<close> of package time: a minus sign for a negative \<open>x\<close>, then the
  digits of its magnitude, padded with zeros on the left to \<open>width\<close>.
\<close>

definition appendInt :: "int \<Rightarrow> nat \<Rightarrow> string" where
  "appendInt x width =
     (if x < 0 then ''-'' else []) @
     replicate (width - length (digits \<bar>x\<bar>)) (CHR ''0'') @ digits \<bar>x\<bar>"

text \<open>\<^verbatim>\<open>t.Format("20060102150405")\<close>.\<close>

definition Format_stamp :: "Time \<Rightarrow> string" where
  "Format_stamp t =
     appendInt (year t) 4 @ appendInt (month t) 2 @ appendInt (day t) 2 @
     appendInt (hour t) 2 @ appendInt (minute t) 2 @ appendInt (second t) 2"

text \<open>\<^verbatim>\<open>t.Format("2006-01-02 15:04:05")\<close>.\<close>

definition Format_datetime :: "Time \<Rightarrow> string" where
  "Format_datetime t =
     appendInt (year t) 4 @ ''-'' @ appendInt (month t) 2 @ ''-'' @ appendInt (day t) 2 @
     '' '' @ appendInt (hour t) 2 @ '':'' @ appendInt (minute t) 2 @ '':'' @
     appendInt (second t) 2"

text \<open>
  \<^verbatim>\<open>fmt.Sprintf("%.1f", x)\<close>: the exact value of \<open>x\<close> rounded to one decimal, ties to
  the even digit; the sign is printed for every negative number, also when it rounds to
  zero; the infinities print with their sign and NaN without.
\<close>

fun Sprintf_1f :: "float64 \<Rightarrow> string" where
  "Sprintf_1f NaN = ''NaN''"
| "Sprintf_1f PosInf = ''+Inf''"
| "Sprintf_1f NegInf = ''-Inf''"
| "Sprintf_1f NegZero = ''-0.0''"
| "Sprintf_1f (Finite q) =
     (let n = round_half_even (\<bar>q\<bar> * 10)
      in (if q < 0 then ''-'' else []) @ digits (n div 10) @ ''.'' @ [digit (n mod 10)])"

section \<open>Package reporting\<close>

type_synonym ReportFormat = string

definition FormatJSON :: ReportFormat where "FormatJSON = ''json''"
definition FormatYAML :: ReportFormat where "FormatYAML = ''yaml''"
definition FormatMarkdown :: ReportFormat where "FormatMarkdown = ''markdown''"
definition FormatHTML :: ReportFormat where "FormatHTML = ''html''"
definition FormatCSV :: ReportFormat where "FormatCSV = ''csv''"

text \<open>
  The structs, with the prefixes \<open>md_\<close> for \<^verbatim>\<open>MetricData\<close>, \<open>kd_\<close> for \<^verbatim>\<open>KPIData\<close>,
  \<open>ex_\<close> for \<^verbatim>\<open>ExecutiveSummary\<close>, \<open>tech_\<close> for \<^verbatim>\<open>TechnicalSummary\<close> and \<open>rpt_\<close> for
  \<^verbatim>\<open>Report\<close>. The counts of the technical summary are only stored and printed.
\<close>

record MetricData =
  md_Name :: string
  md_Type :: string
  md_Value :: float64
  md_Target :: float64
  md_Status :: string
  md_Trend :: string
  md_Timestamp :: Time

record KPIData =
  kd_Key :: string
  kd_Name :: string
  kd_Value :: float64
  kd_Target :: float64
  kd_Status :: string
  kd_Trend :: string
  kd_Unit :: string
  kd_Category :: string

record ExecutiveSummary =
  ex_OverallHealth :: string
  ex_ComplianceScore :: float64
  ex_RiskScore :: float64
  ex_TopConcerns :: "string list"
  ex_TopAchievements :: "string list"
  ex_Recommendations :: "string list"
  ex_ActionItems :: "string list"

record TechnicalSummary =
  tech_MetricsCovered :: int
  tech_KPIsTracked :: int
  tech_AlertsActive :: int
  tech_IncidentsLastMonth :: int
  tech_VulnerabilitiesOpen :: int
  tech_ComplianceStatus :: string
  tech_DetectionRate :: float64
  tech_ResponseTime :: float64

record Report =
  rpt_ID :: string
  rpt_Title :: string
  rpt_Description :: string
  rpt_Format :: ReportFormat
  rpt_CreatedAt :: Time
  rpt_Metrics :: "MetricData list"
  rpt_KPIS :: "KPIData list"
  rpt_Executive :: ExecutiveSummary
  rpt_Technical :: TechnicalSummary
  rpt_Recommendations :: "string list"

record ReportGenerator =
  reports :: "Report list"

definition zero_ExecutiveSummary :: ExecutiveSummary where
  "zero_ExecutiveSummary =
     \<lparr>ex_OverallHealth = [], ex_ComplianceScore = Finite 0, ex_RiskScore = Finite 0,
      ex_TopConcerns = [], ex_TopAchievements = [], ex_Recommendations = [],
      ex_ActionItems = []\<rparr>"

definition zero_TechnicalSummary :: TechnicalSummary where
  "zero_TechnicalSummary =
     \<lparr>tech_MetricsCovered = 0, tech_KPIsTracked = 0, tech_AlertsActive = 0,
      tech_IncidentsLastMonth = 0, tech_VulnerabilitiesOpen = 0, tech_ComplianceStatus = [],
      tech_DetectionRate = Finite 0, tech_ResponseTime = Finite 0\<rparr>"

definition NewReportGenerator :: ReportGenerator where
  "NewReportGenerator = \<lparr>reports = []\<rparr>"

text \<open>
  The method \<^verbatim>\<open>GenerateReport\<close> of the generator. It reads the clock twice: \<open>now1\<close> for
  the id, \<open>now2\<close> for \<^verbatim>\<open>CreatedAt\<close>. It appends a copy of the new report to the registry
  and returns the new report with the generator.
\<close>

definition ReportGenerator_GenerateReport ::
  "Time \<Rightarrow> Time \<Rightarrow> string \<Rightarrow> string \<Rightarrow> ReportFormat \<Rightarrow> ReportGenerator
     \<Rightarrow> ReportGenerator \<times> Report" where
  "ReportGenerator_GenerateReport now1 now2 title description format g =
     (let report =
        \<lparr>rpt_ID = ''rpt-'' @ Format_stamp now1, rpt_Title = title,
         rpt_Description = description, rpt_Format = format, rpt_CreatedAt = now2,
         rpt_Metrics = [], rpt_KPIS = [], rpt_Executive = zero_ExecutiveSummary,
         rpt_Technical = zero_TechnicalSummary, rpt_Recommendations = []\<rparr>
      in (g\<lparr>reports := reports g @ [report]\<rparr>, report))"

text \<open>
  The loops over \<^verbatim>\<open>g.reports\<close>: the first report with the id is changed and the loop
  breaks; the reports before it and after it stay.
\<close>

fun AddMetric_loop :: "Report list \<Rightarrow> string \<Rightarrow> MetricData \<Rightarrow> Report list" where
  "AddMetric_loop [] reportID metric = []"
| "AddMetric_loop (r # rs) reportID metric =
     (if rpt_ID r = reportID then r\<lparr>rpt_Metrics := rpt_Metrics r @ [metric]\<rparr> # rs
      else r # AddMetric_loop rs reportID metric)"

definition ReportGenerator_AddMetric ::
  "string \<Rightarrow> MetricData \<Rightarrow> ReportGenerator \<Rightarrow> ReportGenerator" where
  "ReportGenerator_AddMetric reportID metric g =
     g\<lparr>reports := AddMetric_loop (reports g) reportID metric\<rparr>"

fun AddKPI_loop :: "Report list \<Rightarrow> string \<Rightarrow> KPIData \<Rightarrow> Report list" where
  "AddKPI_loop [] reportID kpi = []"
| "AddKPI_loop (r # rs) reportID kpi =
     (if rpt_ID r = reportID then r\<lparr>rpt_KPIS := rpt_KPIS r @ [kpi]\<rparr> # rs
      else r # AddKPI_loop rs reportID kpi)"

definition ReportGenerator_AddKPI ::
  "string \<Rightarrow> KPIData \<Rightarrow> ReportGenerator \<Rightarrow> ReportGenerator" where
  "ReportGenerator_AddKPI reportID kpi g =
     g\<lparr>reports := AddKPI_loop (reports g) reportID kpi\<rparr>"

text \<open>
  \<^verbatim>\<open>GetReport\<close> returns \<^verbatim>\<open>&g.reports[i]\<close> for the first report with the id, or
  \<^verbatim>\<open>nil\<close>: \<open>Some i\<close> is the pointer to the element at index \<open>i\<close>, \<open>None\<close> is \<^verbatim>\<open>nil\<close>.
\<close>

fun GetReport_loop :: "Report list \<Rightarrow> nat \<Rightarrow> string \<Rightarrow> nat option" where
  "GetReport_loop [] i reportID = None"
| "GetReport_loop (r # rs) i reportID =
     (if rpt_ID r = reportID then Some i else GetReport_loop rs (Suc i) reportID)"

definition GetReport :: "ReportGenerator \<Rightarrow> string \<Rightarrow> nat option" where
  "GetReport g reportID = GetReport_loop (reports g) 0 reportID"

definition GenerateMarkdownReport :: "Report \<Rightarrow> string" where
  "GenerateMarkdownReport report =
     [] @ (''# Security Metrics Report'' @ newline @ newline)
        @ (''**Report ID:** '' @ rpt_ID report @ newline @ newline)
        @ (''**Title:** '' @ rpt_Title report @ newline)
        @ (''**Created:** '' @ Format_datetime (rpt_CreatedAt report) @ newline @ newline)
        @ (''## Executive Summary'' @ newline @ newline)
        @ (''| Metric | Value |'' @ newline)
        @ (''|--------|-------|'' @ newline)
        @ (''| Overall Health | '' @ ex_OverallHealth (rpt_Executive report) @ '' |''
             @ newline)
        @ (''| Compliance Score | ''
             @ (Sprintf_1f (ex_ComplianceScore (rpt_Executive report)) @ ''%'') @ '' |''
             @ newline)
        @ (''| Risk Score | '' @ Sprintf_1f (ex_RiskScore (rpt_Executive report)) @ '' |''
             @ newline @ newline)"

fun GenerateCSVReport_loop :: "MetricData list \<Rightarrow> string \<Rightarrow> string" where
  "GenerateCSVReport_loop [] reportStr = reportStr"
| "GenerateCSVReport_loop (metric # rest) reportStr =
     GenerateCSVReport_loop rest
       (reportStr @
         (md_Name metric @ '','' @ Sprintf_1f (md_Value metric) @ '','' @
          Sprintf_1f (md_Target metric) @ '','' @ md_Status metric @ '','' @
          md_Trend metric @ newline))"

definition GenerateCSVReport :: "Report \<Rightarrow> string" where
  "GenerateCSVReport report =
     GenerateCSVReport_loop (rpt_Metrics report)
       ([] @ (''Metric Name,Value,Target,Status,Trend'' @ newline))"

section \<open>What the specification says, as definitions\<close>

text \<open>
  The summary agrees with the collections: the two totals are the lengths of the two
  collections and the two stored scores are the scores of the current metrics.
\<close>

definition summary_counts :: "MetricsCollector \<Rightarrow> bool" where
  "summary_counts c =
     (ms_TotalMetrics (GetSummary c) = int (length (metrics c)) \<and>
      ms_TotalKPIS (GetSummary c) = int (length (kpis c)) \<and>
      ms_ComplianceScore (GetSummary c) = GetComplianceScore c \<and>
      ms_RiskScore (GetSummary c) = GetRiskScore c)"

text \<open>The stored health is the tier of the two current scores.\<close>

definition summary_health :: "MetricsCollector \<Rightarrow> bool" where
  "summary_health c =
     (ms_OverallHealth (GetSummary c) =
        determineHealth (GetComplianceScore c) (GetRiskScore c))"

text \<open>
  The simple average of a list of float64 numbers: their sum, added up from the left
  starting at 0, divided by their number; 0 for the empty list. The share of a compliance
  metric is \<^verbatim>\<open>(value / target) * 100\<close>.
\<close>

definition float_sum :: "float64 list \<Rightarrow> float64" where
  "float_sum xs = foldl fadd (Finite 0) xs"

definition simple_average :: "float64 list \<Rightarrow> float64" where
  "simple_average xs =
     (if xs = [] then Finite 0
      else fdiv (float_sum xs) (float64_of_int (int (length xs))))"

definition compliance_ratio :: "SecurityMetric \<Rightarrow> float64" where
  "compliance_ratio m = fmul (fdiv (sm_Value m) (sm_Target m)) (Finite 100)"

text \<open>A text of lines, each ended by a newline.\<close>

definition unlines :: "string list \<Rightarrow> string" where
  "unlines ls = concat (map (\<lambda>l. l @ newline) ls)"

text \<open>
  The lines of a text: it is cut at every newline, and what follows the last newline is a
  line when it is not empty.
\<close>

fun lines_from :: "string \<Rightarrow> string \<Rightarrow> string list" where
  "lines_from line [] = (if line = [] then [] else [line])"
| "lines_from line (c # cs) =
     (if c = CHR 0x0A then line # lines_from [] cs else lines_from (line @ [c]) cs)"

definition split_lines :: "string \<Rightarrow> string list" where
  "split_lines s = lines_from [] s"

text \<open>The parts of the Markdown rendering: a table row, the metadata lines, the rows.\<close>

definition markdown_row :: "string \<Rightarrow> string \<Rightarrow> string" where
  "markdown_row name v = ''| '' @ name @ '' | '' @ v @ '' |''"

definition markdown_metadata :: "Report \<Rightarrow> string list" where
  "markdown_metadata report =
     [''**Report ID:** '' @ rpt_ID report, [],
      ''**Title:** '' @ rpt_Title report,
      ''**Created:** '' @ Format_datetime (rpt_CreatedAt report), []]"

definition markdown_table_rows :: "Report \<Rightarrow> string list" where
  "markdown_table_rows report =
     [markdown_row ''Overall Health'' (ex_OverallHealth (rpt_Executive report)),
      markdown_row ''Compliance Score''
        (Sprintf_1f (ex_ComplianceScore (rpt_Executive report)) @ ''%''),
      markdown_row ''Risk Score'' (Sprintf_1f (ex_RiskScore (rpt_Executive report)))]"

text \<open>The CSV row of a metric line item, without its newline.\<close>

definition csv_line :: "MetricData \<Rightarrow> string" where
  "csv_line m =
     md_Name m @ '','' @ Sprintf_1f (md_Value m) @ '','' @ Sprintf_1f (md_Target m) @ '','' @
     md_Status m @ '','' @ md_Trend m"

section \<open>Inputs for the examples\<close>

text \<open>A metric of a type with a value and a target, every other field empty.\<close>

definition metric_of :: "MetricType \<Rightarrow> float64 \<Rightarrow> float64 \<Rightarrow> SecurityMetric" where
  "metric_of t v g =
     \<lparr>sm_ID = [], sm_Name = [], sm_Type = t, sm_Value = v, sm_Unit = [], sm_Target = g,
      sm_Status = [], sm_Timestamp = zero_Time, sm_Description = [], sm_Category = []\<rparr>"

definition collector_of :: "SecurityMetric list \<Rightarrow> MetricsCollector" where
  "collector_of ms = \<lparr>metrics = ms, kpis = [], summary = zero_MetricsSummary\<rparr>"

definition noon :: Time where
  "noon = \<lparr>year = 2024, month = 3, day = 9, hour = 12, minute = 0, second = 0,
            nanosecond = 0\<rparr>"

definition empty_MetricData :: MetricData where
  "empty_MetricData =
     \<lparr>md_Name = [], md_Type = [], md_Value = Finite 0, md_Target = Finite 0, md_Status = [],
      md_Trend = [], md_Timestamp = zero_Time\<rparr>"

definition empty_KPIData :: KPIData where
  "empty_KPIData =
     \<lparr>kd_Key = [], kd_Name = [], kd_Value = Finite 0, kd_Target = Finite 0, kd_Status = [],
      kd_Trend = [], kd_Unit = [], kd_Category = []\<rparr>"

text \<open>
  A report with two of the metric line items of \<^verbatim>\<open>GetCommonMetrics\<close>, one KPI line item
  and an executive summary.
\<close>

definition example_report :: Report where
  "example_report =
     \<lparr>rpt_ID = ''rpt-20240309120000'', rpt_Title = ''Security Metrics Report'',
      rpt_Description = [], rpt_Format = FormatMarkdown, rpt_CreatedAt = noon,
      rpt_Metrics =
        [\<lparr>md_Name = ''Vulnerabilities Open'', md_Type = ''count'', md_Value = Finite 45,
          md_Target = Finite 20, md_Status = ''ABOVE_TARGET'', md_Trend = ''IMPROVING'',
          md_Timestamp = zero_Time\<rparr>,
         \<lparr>md_Name = ''Critical Vulnerabilities'', md_Type = ''count'', md_Value = Finite 3,
          md_Target = Finite 0, md_Status = ''ABOVE_TARGET'', md_Trend = ''STABLE'',
          md_Timestamp = zero_Time\<rparr>],
      rpt_KPIS = [empty_KPIData],
      rpt_Executive = zero_ExecutiveSummary\<lparr>ex_OverallHealth := ''GOOD'',
        ex_ComplianceScore := Finite 92, ex_RiskScore := Finite (91 / 2)\<rparr>,
      rpt_Technical = zero_TechnicalSummary, rpt_Recommendations = []\<rparr>"

text \<open>The generator after one report was created at noon.\<close>

definition example_generator :: ReportGenerator where
  "example_generator =
     fst (ReportGenerator_GenerateReport noon noon ''Security Metrics Report'' []
            FormatMarkdown NewReportGenerator)"

section \<open>Facts about float64\<close>

text \<open>Rules that let the simplifier evaluate a rounding on numerals.\<close>

lemma floor_rat_numeral_div [simp]:
  "\<lfloor>numeral a / numeral b :: rat\<rfloor> = numeral a div numeral b"
  by (metis floor_divide_of_int_eq of_int_numeral)

lemma ceiling_rat_numeral_div [simp]:
  "\<lceil>numeral a / numeral b :: rat\<rceil> = - (- numeral a div numeral b)"
  by (metis ceiling_divide_eq_div of_int_numeral)

lemma bit_length_0 [simp]: "bit_length 0 = 0"
  by (simp add: bit_length.simps)

lemma bit_length_1 [simp]: "bit_length 1 = 1"
  by (simp add: bit_length.simps)

lemma bit_length_numeral [simp]:
  "bit_length (numeral k) = 1 + bit_length (numeral k div 2)"
  by (subst bit_length.simps) simp

lemmas round64_eval =
  round64_def floor_log2_def round_half_even_def power_int_def Let_def power_one_over
  inverse_eq_divide

lemma bit_length_bounds:
  "0 < n \<Longrightarrow> 1 \<le> bit_length n \<and> 2 ^ nat (bit_length n - 1) \<le> n \<and> n < 2 ^ nat (bit_length n)"
proof (induction n rule: bit_length.induct)
  case (1 n)
  show ?case
  proof (cases "n = 1")
    case True
    then show ?thesis by simp
  next
    case False
    with "1.prems" have h: "0 < n div 2" by simp
    from "1.prems" have nle: "\<not> n \<le> 0" by simp
    from "1.IH" [OF nle h] have ih: "1 \<le> bit_length (n div 2)"
      "2 ^ nat (bit_length (n div 2) - 1) \<le> n div 2" "n div 2 < 2 ^ nat (bit_length (n div 2))"
      by simp_all
    have eq: "bit_length n = 1 + bit_length (n div 2)"
      using "1.prems" by (subst bit_length.simps) simp
    have n1: "nat (bit_length n - 1) = Suc (nat (bit_length (n div 2) - 1))"
      using ih(1) eq by simp
    have n2: "nat (bit_length n) = Suc (nat (bit_length (n div 2)))"
      using ih(1) eq by simp
    have "2 * 2 ^ nat (bit_length (n div 2) - 1) \<le> 2 * (n div 2)" using ih(2) by simp
    also have "\<dots> \<le> n" by simp
    finally have a: "2 ^ nat (bit_length n - 1) \<le> n" by (simp add: n1)
    have "n div 2 + 1 \<le> 2 ^ nat (bit_length (n div 2))" using ih(3) by simp
    then have "2 * (n div 2) + 2 \<le> 2 * 2 ^ nat (bit_length (n div 2))" by simp
    moreover have "n < 2 * (n div 2) + 2" by presburger
    ultimately have b: "n < 2 ^ nat (bit_length n)" by (simp add: n2)
    from a b eq ih(1) show ?thesis by simp
  qed
qed

lemma floor_log2_of_int: "1 \<le> k \<Longrightarrow> floor_log2 (of_int k) = bit_length k - 1"
  by (simp add: floor_log2_def)

lemma round_half_even_of_int: "round_half_even (of_int m) = m"
  by (simp add: round_half_even_def)

lemma round64_steps:
  assumes "q \<noteq> 0" "e = max (floor_log2 \<bar>q\<bar>) (- 1022)"
    and "n = round_half_even (\<bar>q\<bar> * 2 powi (52 - e))" "r = of_int n * 2 powi (e - 52)"
  shows "round64 q =
     (if 2 ^ 1024 \<le> r then (if q < 0 then NegInf else PosInf)
      else if n = 0 then (if q < 0 then NegZero else Finite 0)
      else Finite (if q < 0 then - r else r))"
  unfolding assms(4) assms(3) assms(2) using assms(1)
  by (simp only: round64_def Let_def if_False)

lemma round64_of_int:
  assumes "1 \<le> k" "k \<le> 2 ^ 53"
  shows "round64 (of_int k) = Finite (of_int k)"
proof -
  define e where "e = bit_length k - 1"
  from assms(1) bit_length_bounds [of k]
  have b: "0 \<le> e" "2 ^ nat e \<le> k" "k < 2 ^ nat (e + 1)"
    by (simp_all add: e_def)
  have e53: "e \<le> 53"
  proof (rule ccontr)
    assume "\<not> e \<le> 53"
    then have "54 \<le> nat e" by simp
    then have "(2::int) ^ 54 \<le> 2 ^ nat e" by (rule power_increasing) simp
    with b(2) assms(2) show False by simp
  qed
  have fl: "floor_log2 (of_int k) = e"
    using assms(1) by (simp add: floor_log2_of_int e_def)
  have mx: "max e (- 1022) = e" using b(1) by simp
  have kpos: "(of_int k :: rat) \<noteq> 0" "\<not> (of_int k :: rat) < 0" "\<bar>of_int k :: rat\<bar> = of_int k"
    using assms(1) by simp_all
  have small: "(of_int k :: rat) < 2 ^ 1024"
  proof -
    have "k < 2 ^ 1024" using assms(2) by simp
    then have "(of_int k :: rat) < of_int (2 ^ 1024)" by (simp only: of_int_less_iff)
    then show ?thesis by simp
  qed
  show ?thesis
  proof (cases "e \<le> 52")
    case True
    have p1: "(2::rat) powi (52 - e) = of_int (2 ^ nat (52 - e))"
      using True by (simp add: power_int_def)
    have n: "round_half_even (of_int k * 2 powi (52 - e)) = k * 2 ^ nat (52 - e)"
      unfolding p1 of_int_mult [symmetric] by (rule round_half_even_of_int)
    have "(2::rat) powi (52 - e) * 2 powi (e - 52) = 1"
      by (subst power_int_add [symmetric]) simp_all
    then have r: "of_int (k * 2 ^ nat (52 - e)) * (2::rat) powi (e - 52) = of_int k"
      unfolding p1 by (simp add: mult.assoc)
    have nz: "k * 2 ^ nat (52 - e) \<noteq> 0" using assms(1) by simp
    have "round64 (of_int k) = Finite (of_int k)"
      by (subst round64_steps [where e = e and n = "k * 2 ^ nat (52 - e)" and r = "of_int k"])
        (use kpos fl mx n r small nz in \<open>simp_all\<close>)
    then show ?thesis .
  next
    case False
    with e53 have e: "e = 53" by simp
    with b(2) assms(2) have k: "k = 2 ^ 53" by simp
    have n: "round_half_even (of_int k * 2 powi (52 - e)) = 2 ^ 52"
    proof -
      have "of_int k * (2::rat) powi (52 - e) = of_int (2 ^ 52)"
        by (simp add: k e)
      then show ?thesis by (simp only: round_half_even_of_int)
    qed
    have "round64 (of_int k) = Finite (of_int k)"
      by (subst round64_steps [where e = e and n = "2 ^ 52" and r = "of_int k"])
        (use kpos fl mx n in \<open>simp_all add: e k\<close>)
    then show ?thesis .
  qed
qed

lemma float64_of_int_exact:
  "0 \<le> k \<Longrightarrow> k \<le> 2 ^ 53 \<Longrightarrow> float64_of_int k = Finite (of_int k)"
proof (cases "k = 0")
  case True
  then show ?thesis by (simp add: float64_of_int_def round64_def)
next
  case False
  assume "0 \<le> k" "k \<le> 2 ^ 53"
  with False have "1 \<le> k" by simp
  from this \<open>k \<le> 2 ^ 53\<close> show ?thesis
    unfolding float64_of_int_def by (rule round64_of_int)
qed

text \<open>The counter of the scoring loops is exact below \<open>2^53\<close>.\<close>

lemma fadd_count:
  assumes "n < 2 ^ 53"
  shows "fadd (Finite (of_nat n)) (Finite 1) = Finite (of_nat (Suc n))"
proof -
  have "fadd (Finite (of_nat n)) (Finite 1) = round64 (of_int (int n + 1))"
    by simp
  also have "\<dots> = Finite (of_int (int n + 1))"
  proof (rule round64_of_int)
    show "1 \<le> int n + 1" by simp
    from assms have "int n < 2 ^ 53"
      by (metis of_nat_less_iff of_nat_numeral of_nat_power)
    then show "int n + 1 \<le> 2 ^ 53" by simp
  qed
  finally show ?thesis by (simp add: add.commute)
qed

lemma GetComplianceScore_loop_eq:
  "length ms + n \<le> 2 ^ 53 \<Longrightarrow>
   GetComplianceScore_loop ms (Finite (of_nat n), w) =
     (Finite (of_nat (n + length ms)), foldl fadd w (map compliance_ratio ms))"
proof (induction ms arbitrary: n w)
  case Nil
  then show ?case by simp
next
  case (Cons m ms)
  from Cons.prems have n: "n < 2 ^ 53" and rest: "length ms + Suc n \<le> 2 ^ 53" by simp_all
  have step: "GetComplianceScore_loop (m # ms) (Finite (of_nat n), w) =
      GetComplianceScore_loop ms (Finite (of_nat (Suc n)), fadd w (compliance_ratio m))"
    by (simp only: GetComplianceScore_loop.simps fadd_count [OF n] compliance_ratio_def)
  show ?case unfolding step Cons.IH [OF rest] by simp
qed

lemma GetRiskScore_loop_eq:
  "length ms + n \<le> 2 ^ 53 \<Longrightarrow>
   GetRiskScore_loop ms (Finite (of_nat n), w) =
     (Finite (of_nat (n + length ms)), foldl fadd w (map sm_Value ms))"
proof (induction ms arbitrary: n w)
  case Nil
  then show ?case by simp
next
  case (Cons m ms)
  from Cons.prems have n: "n < 2 ^ 53" and rest: "length ms + Suc n \<le> 2 ^ 53" by simp_all
  have step: "GetRiskScore_loop (m # ms) (Finite (of_nat n), w) =
      GetRiskScore_loop ms (Finite (of_nat (Suc n)), fadd w (sm_Value m))"
    by (simp only: GetRiskScore_loop.simps fadd_count [OF n])
  show ?case unfolding step Cons.IH [OF rest] by simp
qed

lemma GetMetricByType_loop_filter:
  "GetMetricByType_loop ms t acc = acc @ filter (\<lambda>m. sm_Type m = t) ms"
  by (induction ms arbitrary: acc) simp_all

lemma GetMetricByType_filter:
  "GetMetricByType c t = filter (\<lambda>m. sm_Type m = t) (metrics c)"
  by (simp add: GetMetricByType_def GetMetricByType_loop_filter)

lemma int_le_pow53: "n \<le> 2 ^ 53 \<Longrightarrow> int n \<le> 2 ^ 53"
  by (metis of_nat_le_iff of_nat_numeral of_nat_power)

lemma GetComplianceScore_average:
  assumes "length (filter (\<lambda>m. sm_Type m = TypeCompliance) (metrics c)) \<le> 2 ^ 53"
  shows "GetComplianceScore c =
     simple_average (map compliance_ratio (filter (\<lambda>m. sm_Type m = TypeCompliance) (metrics c)))"
proof -
  define ms where "ms = filter (\<lambda>m. sm_Type m = TypeCompliance) (metrics c)"
  have len: "length ms + 0 \<le> 2 ^ 53" using assms by (simp add: ms_def)
  have loop: "GetComplianceScore_loop ms (Finite 0, Finite 0) =
      (Finite (of_nat (length ms)), foldl fadd (Finite 0) (map compliance_ratio ms))"
    using GetComplianceScore_loop_eq [OF len, of "Finite 0"] by simp
  have cnt: "float64_of_int (int (length ms)) = Finite (of_nat (length ms))"
    using float64_of_int_exact [of "int (length ms)"] int_le_pow53 [of "length ms"] len by simp
  show ?thesis
    unfolding GetComplianceScore_def GetMetricByType_filter ms_def [symmetric] loop
    by (simp add: simple_average_def float_sum_def cnt)
qed

lemma GetRiskScore_average:
  assumes "length (filter (\<lambda>m. sm_Type m = TypeRisk) (metrics c)) \<le> 2 ^ 53"
  shows "GetRiskScore c =
     simple_average (map sm_Value (filter (\<lambda>m. sm_Type m = TypeRisk) (metrics c)))"
proof -
  define ms where "ms = filter (\<lambda>m. sm_Type m = TypeRisk) (metrics c)"
  have len: "length ms + 0 \<le> 2 ^ 53" using assms by (simp add: ms_def)
  have loop: "GetRiskScore_loop ms (Finite 0, Finite 0) =
      (Finite (of_nat (length ms)), foldl fadd (Finite 0) (map sm_Value ms))"
    using GetRiskScore_loop_eq [OF len, of "Finite 0"] by simp
  have cnt: "float64_of_int (int (length ms)) = Finite (of_nat (length ms))"
    using float64_of_int_exact [of "int (length ms)"] int_le_pow53 [of "length ms"] len by simp
  show ?thesis
    unfolding GetRiskScore_def GetMetricByType_filter ms_def [symmetric] loop
    by (simp add: simple_average_def float_sum_def cnt)
qed

lemma simple_average_80_100: "simple_average [Finite 80, Finite 100] = Finite 90"
  by (simp add: simple_average_def float_sum_def float64_of_int_def fdiv_def round64_eval)

lemma simple_average_100_80: "simple_average [Finite 100, Finite 80] = Finite 90"
  by (simp add: simple_average_def float_sum_def float64_of_int_def fdiv_def round64_eval)

lemma compliance_ratio_80_100:
  "sm_Value m = Finite 80 \<Longrightarrow> sm_Target m = Finite 100 \<Longrightarrow> compliance_ratio m = Finite 80"
  by (simp add: compliance_ratio_def fmul_def fdiv_def round64_eval)

lemma compliance_ratio_100_100:
  "sm_Value m = Finite 100 \<Longrightarrow> sm_Target m = Finite 100 \<Longrightarrow>
     compliance_ratio m = Finite 100"
  by (simp add: compliance_ratio_def fmul_def fdiv_def round64_eval)

text \<open>
  An infinity or a NaN stays one: a division by a zero is not finite, and no later
  multiplication, addition or division of the loop makes the result finite again.
\<close>

lemma fdiv_zero_not_finite: "is_zero y \<Longrightarrow> \<not> is_finite (fdiv x y)"
  by (cases x; cases y) (simp_all add: fdiv_def signed_inf_def)

lemma fmul_not_finite: "\<not> is_finite x \<Longrightarrow> \<not> is_finite (fmul x y)"
  by (cases x; cases y) (simp_all add: fmul_def signed_inf_def)

lemma fdiv_not_finite: "\<not> is_finite x \<Longrightarrow> \<not> is_finite (fdiv x y)"
  by (cases x; cases y) (simp_all add: fdiv_def signed_inf_def)

lemma fadd_not_finite_left: "\<not> is_finite x \<Longrightarrow> \<not> is_finite (fadd x y)"
  by (cases x; cases y) simp_all

lemma fadd_not_finite_right: "\<not> is_finite y \<Longrightarrow> \<not> is_finite (fadd x y)"
  by (cases x; cases y) simp_all

lemma foldl_fadd_not_finite: "\<not> is_finite w \<Longrightarrow> \<not> is_finite (foldl fadd w xs)"
  by (induction xs arbitrary: w) (simp_all add: fadd_not_finite_left)

lemma foldl_fadd_not_finite_elem:
  "x \<in> set xs \<Longrightarrow> \<not> is_finite x \<Longrightarrow> \<not> is_finite (foldl fadd w xs)"
proof (induction xs arbitrary: w)
  case Nil
  then show ?case by simp
next
  case (Cons y ys)
  show ?case
  proof (cases "x = y")
    case True
    with Cons.prems have "\<not> is_finite (fadd w y)" by (simp add: fadd_not_finite_right)
    then show ?thesis by (simp add: foldl_fadd_not_finite)
  next
    case False
    with Cons.prems have "x \<in> set ys" by simp
    from Cons.IH [OF this Cons.prems(2)] show ?thesis by simp
  qed
qed

lemma simple_average_not_finite:
  assumes "x \<in> set xs" "\<not> is_finite x"
  shows "\<not> is_finite (simple_average xs)"
proof -
  from assms(1) have "xs \<noteq> []" by auto
  moreover have "\<not> is_finite (float_sum xs)"
    unfolding float_sum_def using assms by (rule foldl_fadd_not_finite_elem)
  ultimately show ?thesis by (simp add: simple_average_def fdiv_not_finite)
qed

section \<open>Facts about the formatting\<close>

lemma digits_0 [simp]: "digits 0 = [digit 0]"
  by (subst digits.simps) simp

lemma digits_1 [simp]: "digits 1 = [digit 1]"
  by (subst digits.simps) simp

lemma digits_numeral [simp]:
  "digits (numeral k) =
     (if (numeral k :: int) < 10 then [digit (numeral k)]
      else digits (numeral k div 10) @ [digit (numeral k mod 10)])"
  by (subst digits.simps) simp

lemmas format_eval =
  Format_datetime_def Format_stamp_def appendInt_def digit_def round_half_even_def Let_def
  eval_nat_numeral newline_def

lemma Format_stamp_noon: "Format_stamp noon = ''20240309120000''"
  by (simp add: noon_def format_eval)

text \<open>The zero time prints as Go prints it.\<close>

lemma Format_datetime_zero_Time: "Format_datetime zero_Time = ''0001-01-01 00:00:00''"
  by (simp add: zero_Time_def format_eval)

text \<open>
  \<^verbatim>\<open>%.1f\<close> on some numbers: exact ties go to the even digit, 0.1 (the float64 next to
  one tenth) prints as it reads, and a negative number keeps its sign when it rounds to
  zero.
\<close>

lemma Sprintf_1f_examples:
  "Sprintf_1f (Finite 92) = ''92.0''"
  "Sprintf_1f (Finite (91 / 2)) = ''45.5''"
  "Sprintf_1f (Finite (1 / 4)) = ''0.2''"
  "Sprintf_1f (Finite (3 / 4)) = ''0.8''"
  "Sprintf_1f (Finite (- 1 / 100)) = ''-0.0''"
  "Sprintf_1f (Finite (3602879701896397 / 36028797018963968)) = ''0.1''"
  "Sprintf_1f (Finite 0) = ''0.0''"
  "Sprintf_1f (Finite 12345) = ''12345.0''"
  by (simp_all add: format_eval)

lemma unlines_Nil: "unlines [] = []"
  by (simp add: unlines_def)

lemma unlines_Cons: "unlines (l # ls) = l @ newline @ unlines ls"
  by (simp add: unlines_def)

text \<open>Cutting a text of lines gives the lines back; the formatted numbers and times have no
  newline.\<close>

lemma lines_from_line:
  "CHR 0x0A \<notin> set l \<Longrightarrow>
     lines_from line (l @ newline @ rest) = (line @ l) # lines_from [] rest"
  by (induction l arbitrary: line) (auto simp: newline_def)

lemma split_lines_unlines:
  "(\<And>l. l \<in> set ls \<Longrightarrow> CHR 0x0A \<notin> set l) \<Longrightarrow> split_lines (unlines ls) = ls"
proof (induction ls)
  case Nil
  then show ?case by (simp add: split_lines_def unlines_Nil)
next
  case (Cons l ls)
  have "CHR 0x0A \<notin> set l" using Cons.prems by simp
  then have "lines_from [] (l @ newline @ unlines ls) = l # lines_from [] (unlines ls)"
    using lines_from_line [of l "[]" "unlines ls"] by simp
  moreover have "split_lines (unlines ls) = ls" using Cons by simp
  ultimately show ?case by (simp add: split_lines_def unlines_Cons)
qed

lemma digit_is_digit: "digit d \<in> set ''0123456789''"
proof -
  have "nat (d mod 10) < length ''0123456789''" by simp
  then show ?thesis unfolding digit_def by (rule nth_mem)
qed

lemma digits_are_digits: "0 \<le> n \<Longrightarrow> set (digits n) \<subseteq> set ''0123456789''"
proof (induction n rule: digits.induct)
  case (1 n)
  show ?case
  proof (cases "n < 10")
    case True
    with digit_is_digit [of n] show ?thesis
      by (subst digits.simps) simp
  next
    case False
    then have "0 \<le> n div 10" by simp
    from "1.IH" [OF False this] have "set (digits (n div 10)) \<subseteq> set ''0123456789''" .
    moreover have "digit (n mod 10) \<in> set ''0123456789''"
      by (rule digit_is_digit)
    ultimately show ?thesis using False
      by (subst digits.simps) simp
  qed
qed

lemma digits_no_newline: "0 \<le> n \<Longrightarrow> CHR 0x0A \<notin> set (digits n)"
  using digits_are_digits [of n] by auto

lemma appendInt_no_newline: "CHR 0x0A \<notin> set (appendInt x w)"
  using digits_no_newline [of "\<bar>x\<bar>"] by (simp add: appendInt_def)

lemma Format_datetime_no_newline: "CHR 0x0A \<notin> set (Format_datetime t)"
  by (simp add: Format_datetime_def appendInt_no_newline)

lemma round_half_even_nonneg: "0 \<le> m \<Longrightarrow> 0 \<le> round_half_even m"
  by (simp add: round_half_even_def Let_def)

lemma Sprintf_1f_no_newline: "CHR 0x0A \<notin> set (Sprintf_1f x)"
proof (cases x)
  case (Finite q)
  have n: "0 \<le> round_half_even (\<bar>q\<bar> * 10)" by (rule round_half_even_nonneg) simp
  then have "0 \<le> round_half_even (\<bar>q\<bar> * 10) div 10" by simp
  from digits_no_newline [OF this] digit_is_digit [of "round_half_even (\<bar>q\<bar> * 10) mod 10"]
  show ?thesis using Finite by (auto simp: Let_def)
qed simp_all

section \<open>The health tier\<close>

lemma determineHealth_finite:
  "determineHealth (Finite c) (Finite r) =
     (if 90 \<le> c \<and> r \<le> 30 then ''HEALTHY''
      else if 70 \<le> c \<and> r \<le> 50 then ''GOOD''
      else if 50 \<le> c \<and> r \<le> 70 then ''FAIR''
      else ''POOR'')"
  by (simp add: determineHealth_def fge_def)

lemma determineHealth_NaN_compliance: "determineHealth NaN risk = ''POOR''"
  by (cases risk) (simp_all add: determineHealth_def fge_def)

lemma determineHealth_NaN_risk: "determineHealth compliance NaN = ''POOR''"
  by (cases compliance) (simp_all add: determineHealth_def fge_def)

text \<open>
  C4. The tier is a function of the two scores alone, decided by the three threshold
  checks in order, the first that holds giving the tier: compliance at least 90 and risk
  at most 30 is HEALTHY, else at least 70 and at most 50 is GOOD, else at least 50 and at
  most 70 is FAIR, and POOR otherwise. On finite scores the checks are the comparisons of
  their values; a NaN score fails every check and gives POOR. The scores 92 and 45.5
  give GOOD.
\<close>

theorem determineHealth_tiers:
  "determineHealth compliance risk =
     (if fge compliance (Finite 90) \<and> fle risk (Finite 30) then ''HEALTHY''
      else if fge compliance (Finite 70) \<and> fle risk (Finite 50) then ''GOOD''
      else if fge compliance (Finite 50) \<and> fle risk (Finite 70) then ''FAIR''
      else ''POOR'')
   \<and> determineHealth (Finite c) (Finite r) =
     (if 90 \<le> c \<and> r \<le> 30 then ''HEALTHY''
      else if 70 \<le> c \<and> r \<le> 50 then ''GOOD''
      else if 50 \<le> c \<and> r \<le> 70 then ''FAIR''
      else ''POOR'')
   \<and> determineHealth NaN risk = ''POOR'' \<and> determineHealth compliance NaN = ''POOR''
   \<and> determineHealth (Finite 92) (Finite (91 / 2)) = ''GOOD''"
proof -
  have example: "determineHealth (Finite 92) (Finite (91 / 2)) = ''GOOD''"
    by (simp add: determineHealth_finite)
  show ?thesis
    using example determineHealth_finite [of c r] determineHealth_NaN_compliance [of risk]
      determineHealth_NaN_risk [of compliance]
    by (simp add: determineHealth_def)
qed

section \<open>The two scores\<close>

text \<open>
  C1. The compliance score is the simple average, in float64 arithmetic, of
  \<^verbatim>\<open>(value / target) * 100\<close> over the metrics tagged compliance, in their order, and 0
  when there is none. The counter of the loop is a float64 too; it is the number of those
  metrics as long as there are at most \<open>2^53\<close> of them, which holds for every slice a Go
  program can hold (the struct takes 152 bytes). For exactly two compliance metrics, 80 of
  100 and 100 of 100 in either order, the score is 90.
\<close>

theorem compliance_score_simple_average:
  "(length (filter (\<lambda>m. sm_Type m = TypeCompliance) (metrics c)) \<le> 2 ^ 53 \<longrightarrow>
      GetComplianceScore c =
        simple_average
          (map compliance_ratio (filter (\<lambda>m. sm_Type m = TypeCompliance) (metrics c))))
   \<and> (filter (\<lambda>m. sm_Type m = TypeCompliance) (metrics c) = [] \<longrightarrow>
        GetComplianceScore c = Finite 0)
   \<and> ((filter (\<lambda>m. sm_Type m = TypeCompliance) (metrics c) = [m1, m2] \<or>
       filter (\<lambda>m. sm_Type m = TypeCompliance) (metrics c) = [m2, m1]) \<and>
      sm_Value m1 = Finite 80 \<and> sm_Target m1 = Finite 100 \<and>
      sm_Value m2 = Finite 100 \<and> sm_Target m2 = Finite 100 \<longrightarrow>
        GetComplianceScore c = Finite 90)"
proof (intro conjI impI)
  assume "length (filter (\<lambda>m. sm_Type m = TypeCompliance) (metrics c)) \<le> 2 ^ 53"
  then show "GetComplianceScore c =
        simple_average
          (map compliance_ratio (filter (\<lambda>m. sm_Type m = TypeCompliance) (metrics c)))"
    by (rule GetComplianceScore_average)
next
  assume "filter (\<lambda>m. sm_Type m = TypeCompliance) (metrics c) = []"
  then show "GetComplianceScore c = Finite 0"
    by (simp add: GetComplianceScore_def GetMetricByType_filter)
next
  assume a: "(filter (\<lambda>m. sm_Type m = TypeCompliance) (metrics c) = [m1, m2] \<or>
       filter (\<lambda>m. sm_Type m = TypeCompliance) (metrics c) = [m2, m1]) \<and>
      sm_Value m1 = Finite 80 \<and> sm_Target m1 = Finite 100 \<and>
      sm_Value m2 = Finite 100 \<and> sm_Target m2 = Finite 100"
  then have len: "length (filter (\<lambda>m. sm_Type m = TypeCompliance) (metrics c)) \<le> 2 ^ 53"
    by auto
  have r: "compliance_ratio m1 = Finite 80" "compliance_ratio m2 = Finite 100"
    using a by (simp_all add: compliance_ratio_80_100 compliance_ratio_100_100)
  from a consider
    (fwd) "filter (\<lambda>m. sm_Type m = TypeCompliance) (metrics c) = [m1, m2]"
    | (bwd) "filter (\<lambda>m. sm_Type m = TypeCompliance) (metrics c) = [m2, m1]"
    by blast
  then show "GetComplianceScore c = Finite 90"
  proof cases
    case fwd
    show ?thesis
      unfolding GetComplianceScore_average [OF len] fwd
      by (simp add: r simple_average_80_100)
  next
    case bwd
    show ?thesis
      unfolding GetComplianceScore_average [OF len] bwd
      by (simp add: r simple_average_100_80)
  qed
qed

theorem compliance_score_simple_average_witness:
  "length (filter (\<lambda>m. sm_Type m = TypeCompliance)
      (metrics (collector_of [metric_of TypeCompliance (Finite 80) (Finite 100),
                              metric_of TypeRisk (Finite 40) (Finite 0),
                              metric_of TypeCompliance (Finite 100) (Finite 100)]))) \<le> 2 ^ 53
   \<and> GetComplianceScore
        (collector_of [metric_of TypeCompliance (Finite 80) (Finite 100),
                       metric_of TypeRisk (Finite 40) (Finite 0),
                       metric_of TypeCompliance (Finite 100) (Finite 100)]) = Finite 90
   \<and> simple_average (map compliance_ratio
        [metric_of TypeCompliance (Finite 80) (Finite 100),
         metric_of TypeCompliance (Finite 100) (Finite 100)]) = Finite 90
   \<and> GetComplianceScore (collector_of [metric_of TypeRisk (Finite 40) (Finite 0)]) = Finite 0"
proof -
  let ?a = "metric_of TypeCompliance (Finite 80) (Finite 100)"
  let ?r = "metric_of TypeRisk (Finite 40) (Finite 0)"
  let ?b = "metric_of TypeCompliance (Finite 100) (Finite 100)"
  have f: "filter (\<lambda>m. sm_Type m = TypeCompliance) (metrics (collector_of [?a, ?r, ?b]))
      = [?a, ?b]"
    by (simp add: collector_of_def metric_of_def TypeCompliance_def TypeRisk_def)
  have f0: "filter (\<lambda>m. sm_Type m = TypeCompliance) (metrics (collector_of [?r])) = []"
    by (simp add: collector_of_def metric_of_def TypeCompliance_def TypeRisk_def)
  have v: "sm_Value ?a = Finite 80" "sm_Target ?a = Finite 100"
    "sm_Value ?b = Finite 100" "sm_Target ?b = Finite 100"
    by (simp_all add: metric_of_def)
  have len: "length (filter (\<lambda>m. sm_Type m = TypeCompliance)
      (metrics (collector_of [?a, ?r, ?b]))) \<le> 2 ^ 53"
    unfolding f by simp
  from compliance_score_simple_average [of "collector_of [?a, ?r, ?b]" ?a ?b] f v
  have s90: "GetComplianceScore (collector_of [?a, ?r, ?b]) = Finite 90" by blast
  from compliance_score_simple_average [of "collector_of [?a, ?r, ?b]" ?a ?b] len
  have "GetComplianceScore (collector_of [?a, ?r, ?b]) =
      simple_average (map compliance_ratio
        (filter (\<lambda>m. sm_Type m = TypeCompliance) (metrics (collector_of [?a, ?r, ?b]))))"
    by blast
  with s90 have avg: "simple_average (map compliance_ratio [?a, ?b]) = Finite 90"
    unfolding f by simp
  from compliance_score_simple_average [of "collector_of [?r]" ?a ?b] f0
  have z: "GetComplianceScore (collector_of [?r]) = Finite 0" by blast
  from len s90 avg z show ?thesis by blast
qed

text \<open>
  Two more collectors: the single metric 92 of 100 scores 92; the metrics 80 of 100 and
  300 of 300 score 90, the average of the shares 80 and 100, where the sum of the values
  over the sum of the targets would be 95.
\<close>

lemma compliance_score_examples:
  "GetComplianceScore (collector_of [metric_of TypeCompliance (Finite 92) (Finite 100)])
     = Finite 92"
  "GetComplianceScore (collector_of [metric_of TypeCompliance (Finite 80) (Finite 100),
                                     metric_of TypeCompliance (Finite 300) (Finite 300)])
     = Finite 90"
  "fmul (fdiv (fadd (Finite 80) (Finite 300)) (fadd (Finite 100) (Finite 300))) (Finite 100)
     = Finite 95"
  by (simp_all add: GetComplianceScore_def GetMetricByType_def collector_of_def metric_of_def
      TypeCompliance_def fdiv_def fmul_def round64_eval)

text \<open>
  C5. The risk score is the simple average, in float64 arithmetic, of the values of the
  metrics tagged risk, in their order, and 0 when there is none (with the same bound on
  their number as for the compliance score). With no metric at all both scores are 0.
\<close>

theorem risk_score_simple_average:
  "(length (filter (\<lambda>m. sm_Type m = TypeRisk) (metrics c)) \<le> 2 ^ 53 \<longrightarrow>
      GetRiskScore c =
        simple_average (map sm_Value (filter (\<lambda>m. sm_Type m = TypeRisk) (metrics c))))
   \<and> (filter (\<lambda>m. sm_Type m = TypeRisk) (metrics c) = [] \<longrightarrow> GetRiskScore c = Finite 0)
   \<and> (metrics c = [] \<longrightarrow> GetComplianceScore c = Finite 0 \<and> GetRiskScore c = Finite 0)"
proof (intro conjI impI)
  assume "length (filter (\<lambda>m. sm_Type m = TypeRisk) (metrics c)) \<le> 2 ^ 53"
  then show "GetRiskScore c =
        simple_average (map sm_Value (filter (\<lambda>m. sm_Type m = TypeRisk) (metrics c)))"
    by (rule GetRiskScore_average)
next
  assume "filter (\<lambda>m. sm_Type m = TypeRisk) (metrics c) = []"
  then show "GetRiskScore c = Finite 0"
    by (simp add: GetRiskScore_def GetMetricByType_filter)
next
  assume "metrics c = []"
  then show "GetComplianceScore c = Finite 0"
    by (simp add: GetComplianceScore_def GetMetricByType_filter)
next
  assume "metrics c = []"
  then show "GetRiskScore c = Finite 0"
    by (simp add: GetRiskScore_def GetMetricByType_filter)
qed

theorem risk_score_simple_average_witness:
  "length (filter (\<lambda>m. sm_Type m = TypeRisk)
      (metrics (collector_of [metric_of TypeRisk (Finite 40) (Finite 0),
                              metric_of TypeCompliance (Finite 80) (Finite 100),
                              metric_of TypeRisk (Finite 51) (Finite 0)]))) \<le> 2 ^ 53
   \<and> GetRiskScore
        (collector_of [metric_of TypeRisk (Finite 40) (Finite 0),
                       metric_of TypeCompliance (Finite 80) (Finite 100),
                       metric_of TypeRisk (Finite 51) (Finite 0)]) = Finite (91 / 2)
   \<and> GetRiskScore (collector_of [metric_of TypeCompliance (Finite 80) (Finite 100)])
       = Finite 0
   \<and> metrics NewMetricsCollector = []
   \<and> GetComplianceScore NewMetricsCollector = Finite 0
   \<and> GetRiskScore NewMetricsCollector = Finite 0"
proof -
  let ?a = "metric_of TypeRisk (Finite 40) (Finite 0)"
  let ?c = "metric_of TypeCompliance (Finite 80) (Finite 100)"
  let ?b = "metric_of TypeRisk (Finite 51) (Finite 0)"
  have f: "filter (\<lambda>m. sm_Type m = TypeRisk) (metrics (collector_of [?a, ?c, ?b])) = [?a, ?b]"
    by (simp add: collector_of_def metric_of_def TypeCompliance_def TypeRisk_def)
  have f0: "filter (\<lambda>m. sm_Type m = TypeRisk) (metrics (collector_of [?c])) = []"
    by (simp add: collector_of_def metric_of_def TypeCompliance_def TypeRisk_def)
  have e: "metrics NewMetricsCollector = []"
    by (simp add: NewMetricsCollector_def)
  have len: "length (filter (\<lambda>m. sm_Type m = TypeRisk)
      (metrics (collector_of [?a, ?c, ?b]))) \<le> 2 ^ 53"
    unfolding f by simp
  have avg: "simple_average (map sm_Value [?a, ?b]) = Finite (91 / 2)"
    by (simp add: metric_of_def simple_average_def float_sum_def float64_of_int_def fdiv_def
        round64_eval)
  from risk_score_simple_average [of "collector_of [?a, ?c, ?b]"] len
  have "GetRiskScore (collector_of [?a, ?c, ?b]) =
      simple_average (map sm_Value
        (filter (\<lambda>m. sm_Type m = TypeRisk) (metrics (collector_of [?a, ?c, ?b]))))"
    by blast
  then have s: "GetRiskScore (collector_of [?a, ?c, ?b]) = Finite (91 / 2)"
    unfolding f avg .
  from risk_score_simple_average [of "collector_of [?c]"] f0
  have z: "GetRiskScore (collector_of [?c]) = Finite 0" by blast
  from risk_score_simple_average [of NewMetricsCollector] e
  have n: "GetComplianceScore NewMetricsCollector = Finite 0"
    "GetRiskScore NewMetricsCollector = Finite 0" by blast+
  from len s z e n show ?thesis by blast
qed

text \<open>
  C3 fails on the code. \<^verbatim>\<open>GetComplianceScore\<close> checks only its counter against zero;
  it divides by the target of every compliance metric, whatever the target. A compliance
  metric with target 0 and value 1 makes the score an infinity, with value 0 a NaN, and
  the infinite score passes the first check of the health tier.
\<close>

theorem zero_target_infinite_score:
  "GetComplianceScore (collector_of [metric_of TypeCompliance (Finite 1) (Finite 0)]) = PosInf
   \<and> GetComplianceScore (collector_of [metric_of TypeCompliance (Finite 0) (Finite 0)]) = NaN
   \<and> determineHealth
        (GetComplianceScore (collector_of [metric_of TypeCompliance (Finite 1) (Finite 0)]))
        (GetRiskScore (collector_of [metric_of TypeCompliance (Finite 1) (Finite 0)]))
       = ''HEALTHY''"
  by (simp add: GetComplianceScore_def GetRiskScore_def GetMetricByType_def collector_of_def
      metric_of_def TypeCompliance_def TypeRisk_def fdiv_def fmul_def signed_inf_def
      determineHealth_def fge_def round64_eval)

text \<open>
  The same for every collector (of a size a Go program can hold): one compliance metric
  with a zero target, positive or negative, and the score is an infinity or a NaN.
\<close>

lemma compliance_ratio_zero_target:
  "is_zero (sm_Target m) \<Longrightarrow> \<not> is_finite (compliance_ratio m)"
  by (simp add: compliance_ratio_def fmul_not_finite fdiv_zero_not_finite)

lemma zero_target_score_not_finite:
  assumes "length (filter (\<lambda>m. sm_Type m = TypeCompliance) (metrics c)) \<le> 2 ^ 53"
    and "m \<in> set (metrics c)" "sm_Type m = TypeCompliance" "is_zero (sm_Target m)"
  shows "\<not> is_finite (GetComplianceScore c)"
proof -
  have "compliance_ratio m \<in>
      set (map compliance_ratio (filter (\<lambda>m. sm_Type m = TypeCompliance) (metrics c)))"
    using assms(2,3) by simp
  then show ?thesis
    unfolding GetComplianceScore_average [OF assms(1)]
    using compliance_ratio_zero_target [OF assms(4)] by (rule simple_average_not_finite)
qed

section \<open>The summary of a collector\<close>

text \<open>
  C10. The summary of a fresh collector is the zero value: both totals 0, both scores 0,
  and the empty string as health, although the tier of the scores 0 and 0 is POOR:
  \<^verbatim>\<open>updateSummary\<close> has not run yet.
\<close>

theorem fresh_summary_zero:
  "GetSummary NewMetricsCollector =
     \<lparr>ms_TotalMetrics = 0, ms_TotalKPIS = 0, ms_ComplianceScore = Finite 0,
      ms_RiskScore = Finite 0, ms_OverallHealth = [], ms_LastUpdated = zero_Time\<rparr>
   \<and> ms_OverallHealth (GetSummary NewMetricsCollector) = []
   \<and> determineHealth (ms_ComplianceScore (GetSummary NewMetricsCollector))
        (ms_RiskScore (GetSummary NewMetricsCollector)) = ''POOR''"
  by (simp add: GetSummary_def NewMetricsCollector_def zero_MetricsSummary_def
      determineHealth_finite)

lemma GetComplianceScore_summary [simp]:
  "GetComplianceScore (c\<lparr>summary := s\<rparr>) = GetComplianceScore c"
  by (simp add: GetComplianceScore_def GetMetricByType_def)

lemma GetRiskScore_summary [simp]:
  "GetRiskScore (c\<lparr>summary := s\<rparr>) = GetRiskScore c"
  by (simp add: GetRiskScore_def GetMetricByType_def)

lemma updateSummary_current:
  "summary_counts (updateSummary now c) \<and> summary_health (updateSummary now c)"
  by (simp add: summary_counts_def summary_health_def updateSummary_def GetSummary_def Let_def)

lemma AddMetric_current:
  "summary_counts (AddMetric now1 now2 metric c) \<and>
   summary_health (AddMetric now1 now2 metric c)"
  unfolding AddMetric_def by (rule updateSummary_current)

lemma AddKPI_current:
  "summary_counts (AddKPI now1 now2 kpi c) \<and> summary_health (AddKPI now1 now2 kpi c)"
  unfolding AddKPI_def by (rule updateSummary_current)

lemma AddMetric_not_fresh: "AddMetric now1 now2 metric c \<noteq> NewMetricsCollector"
proof
  assume "AddMetric now1 now2 metric c = NewMetricsCollector"
  then have "metrics (AddMetric now1 now2 metric c) = metrics NewMetricsCollector" by simp
  then show False by (simp add: AddMetric_def updateSummary_def Let_def NewMetricsCollector_def)
qed

lemma AddKPI_not_fresh: "AddKPI now1 now2 kpi c \<noteq> NewMetricsCollector"
proof
  assume "AddKPI now1 now2 kpi c = NewMetricsCollector"
  then have "kpis (AddKPI now1 now2 kpi c) = kpis NewMetricsCollector" by simp
  then show False by (simp add: AddKPI_def updateSummary_def Let_def NewMetricsCollector_def)
qed

lemma fresh_counts: "summary_counts NewMetricsCollector"
  by (simp add: summary_counts_def GetSummary_def NewMetricsCollector_def
      zero_MetricsSummary_def GetComplianceScore_def GetRiskScore_def GetMetricByType_def)

text \<open>
  C2, as the code has it. In every reachable state the two totals and the two scores of
  the summary are those of the current collections. In every reachable state but the
  fresh one, that is after at least one \<^verbatim>\<open>AddMetric\<close> or \<^verbatim>\<open>AddKPI\<close>, the health is the
  tier of the two current scores; in the fresh state the health is the empty string.
\<close>

theorem summary_reflects_collections:
  assumes "reachable c"
  shows "summary_counts c \<and>
         (if c = NewMetricsCollector then ms_OverallHealth (GetSummary c) = []
          else summary_health c)"
  using assms
proof (induction rule: reachable.induct)
  case fresh
  have "ms_OverallHealth (GetSummary NewMetricsCollector) = []"
    by (simp add: GetSummary_def NewMetricsCollector_def zero_MetricsSummary_def)
  with fresh_counts show ?case by simp
next
  case (add_metric c now1 now2 metric)
  show ?case using AddMetric_current AddMetric_not_fresh by simp
next
  case (add_kpi c now1 now2 kpi)
  show ?case using AddKPI_current AddKPI_not_fresh by simp
qed

text \<open>
  The theorem on the collector that received one compliance metric, 100 of 100: one
  metric, no KPI, compliance 100, risk 0, and the health HEALTHY.
\<close>

theorem summary_reflects_collections_witness:
  "reachable
     (AddMetric noon noon (metric_of TypeCompliance (Finite 100) (Finite 100))
        NewMetricsCollector)
   \<and> summary_counts
       (AddMetric noon noon (metric_of TypeCompliance (Finite 100) (Finite 100))
          NewMetricsCollector)
   \<and> summary_health
       (AddMetric noon noon (metric_of TypeCompliance (Finite 100) (Finite 100))
          NewMetricsCollector)
   \<and> GetSummary
       (AddMetric noon noon (metric_of TypeCompliance (Finite 100) (Finite 100))
          NewMetricsCollector) =
       \<lparr>ms_TotalMetrics = 1, ms_TotalKPIS = 0, ms_ComplianceScore = Finite 100,
        ms_RiskScore = Finite 0, ms_OverallHealth = ''HEALTHY'', ms_LastUpdated = noon\<rparr>"
proof -
  let ?c = "AddMetric noon noon (metric_of TypeCompliance (Finite 100) (Finite 100))
      NewMetricsCollector"
  have r: "reachable ?c"
    by (rule reachable.add_metric) (rule reachable.fresh)
  have n: "?c \<noteq> NewMetricsCollector"
    by (rule AddMetric_not_fresh)
  from summary_reflects_collections [OF r] n
  have inv: "summary_counts ?c" "summary_health ?c" by simp_all
  have v: "GetSummary ?c =
       \<lparr>ms_TotalMetrics = 1, ms_TotalKPIS = 0, ms_ComplianceScore = Finite 100,
        ms_RiskScore = Finite 0, ms_OverallHealth = ''HEALTHY'', ms_LastUpdated = noon\<rparr>"
    by (simp add: GetSummary_def AddMetric_def updateSummary_def Let_def
        NewMetricsCollector_def zero_MetricsSummary_def metric_of_def GetComplianceScore_def
        GetRiskScore_def GetMetricByType_def TypeCompliance_def TypeRisk_def fdiv_def fmul_def
        determineHealth_finite round64_eval)
  from r inv v show ?thesis by blast
qed

text \<open>
  C2 as stated fails in the fresh state, which is reachable: the stored health is the
  empty string, the tier of the current scores is POOR.
\<close>

theorem fresh_health_not_tier:
  "reachable NewMetricsCollector \<and>
   ms_OverallHealth (GetSummary NewMetricsCollector) \<noteq>
     determineHealth (GetComplianceScore NewMetricsCollector)
       (GetRiskScore NewMetricsCollector)"
proof
  show "reachable NewMetricsCollector" by (rule reachable.fresh)
  show "ms_OverallHealth (GetSummary NewMetricsCollector) \<noteq>
     determineHealth (GetComplianceScore NewMetricsCollector)
       (GetRiskScore NewMetricsCollector)"
    by (simp add: GetSummary_def NewMetricsCollector_def zero_MetricsSummary_def
        GetComplianceScore_def GetRiskScore_def GetMetricByType_def determineHealth_finite)
qed

section \<open>The registry of reports\<close>

lemma GetReport_loop_None:
  "reportID \<notin> rpt_ID ` set rs \<Longrightarrow> GetReport_loop rs i reportID = None"
  by (induction rs arbitrary: i) auto

lemma AddMetric_loop_unknown:
  "reportID \<notin> rpt_ID ` set rs \<Longrightarrow> AddMetric_loop rs reportID metric = rs"
  by (induction rs) auto

lemma AddKPI_loop_unknown:
  "reportID \<notin> rpt_ID ` set rs \<Longrightarrow> AddKPI_loop rs reportID kpi = rs"
  by (induction rs) auto

text \<open>
  C8. For an id that no stored report has, \<^verbatim>\<open>GetReport\<close> returns \<^verbatim>\<open>nil\<close>, and
  \<^verbatim>\<open>AddMetric\<close> and \<^verbatim>\<open>AddKPI\<close> leave the generator as it was, so every stored report
  keeps its line items and its summary blocks.
\<close>

theorem unknown_id_not_found_and_noop:
  assumes "reportID \<notin> rpt_ID ` set (reports g)"
  shows "GetReport g reportID = None
       \<and> ReportGenerator_AddMetric reportID metric g = g
       \<and> ReportGenerator_AddKPI reportID kpi g = g"
  using assms
  by (simp add: GetReport_def ReportGenerator_AddMetric_def ReportGenerator_AddKPI_def
      GetReport_loop_None AddMetric_loop_unknown AddKPI_loop_unknown)

lemma example_generator_ids: "map rpt_ID (reports example_generator) = [''rpt-20240309120000'']"
  by (simp add: example_generator_def ReportGenerator_GenerateReport_def Let_def
      NewReportGenerator_def Format_stamp_noon)

text \<open>
  The theorem on the generator that holds the report of noon, asked for another id; the
  id of noon is found, at index 0.
\<close>

theorem unknown_id_not_found_and_noop_witness:
  "''rpt-20240309120001'' \<notin> rpt_ID ` set (reports example_generator)
   \<and> GetReport example_generator ''rpt-20240309120001'' = None
   \<and> ReportGenerator_AddMetric ''rpt-20240309120001'' empty_MetricData example_generator
       = example_generator
   \<and> ReportGenerator_AddKPI ''rpt-20240309120001'' empty_KPIData example_generator
       = example_generator
   \<and> GetReport example_generator ''rpt-20240309120000'' = Some 0"
proof -
  have ids: "rpt_ID ` set (reports example_generator) = {''rpt-20240309120000''}"
    using example_generator_ids by (metis list.set_map list.simps(15) set_empty2 empty_set)
  have u: "''rpt-20240309120001'' \<notin> rpt_ID ` set (reports example_generator)"
    unfolding ids by simp
  have k: "GetReport example_generator ''rpt-20240309120000'' = Some 0"
    by (simp add: GetReport_def example_generator_def ReportGenerator_GenerateReport_def
        Let_def NewReportGenerator_def Format_stamp_noon)
  from unknown_id_not_found_and_noop [OF u] u k show ?thesis by blast
qed

text \<open>
  C9 fails on the code. The id of a report is \<^verbatim>\<open>"rpt-"\<close> and the clock reading down to
  the second, so two reports created on one generator within the same second (here: at
  clock readings that differ in the nanoseconds only) have the same id, and the ids of the
  registry are not distinct.
\<close>

theorem same_second_same_id:
  "(case ReportGenerator_GenerateReport t ta title1 desc1 fmt1 g of
      (g1, r1) \<Rightarrow>
        (case ReportGenerator_GenerateReport (t\<lparr>nanosecond := n\<rparr>) tb title2 desc2 fmt2 g1 of
           (g2, r2) \<Rightarrow> rpt_ID r1 = rpt_ID r2 \<and> \<not> distinct (map rpt_ID (reports g2))))"
proof -
  have stamp: "Format_stamp (t\<lparr>nanosecond := n\<rparr>) = Format_stamp t"
    by (simp add: Format_stamp_def)
  obtain g1 r1 where first:
    "ReportGenerator_GenerateReport t ta title1 desc1 fmt1 g = (g1, r1)"
    by (cases "ReportGenerator_GenerateReport t ta title1 desc1 fmt1 g")
  obtain g2 r2 where second:
    "ReportGenerator_GenerateReport (t\<lparr>nanosecond := n\<rparr>) tb title2 desc2 fmt2 g1 = (g2, r2)"
    by (cases "ReportGenerator_GenerateReport (t\<lparr>nanosecond := n\<rparr>) tb title2 desc2 fmt2 g1")
  from first have id1: "rpt_ID r1 = ''rpt-'' @ Format_stamp t"
    and reg1: "map rpt_ID (reports g1) = map rpt_ID (reports g) @ [''rpt-'' @ Format_stamp t]"
    by (auto simp: ReportGenerator_GenerateReport_def Let_def)
  from second have id2: "rpt_ID r2 = ''rpt-'' @ Format_stamp t"
    and reg2: "map rpt_ID (reports g2) = map rpt_ID (reports g1) @ [''rpt-'' @ Format_stamp t]"
    by (auto simp: ReportGenerator_GenerateReport_def Let_def stamp)
  have "\<not> distinct (map rpt_ID (reports g2))"
    unfolding reg2 reg1 by simp
  with id1 id2 show ?thesis
    by (simp add: first second)
qed

text \<open>
  On a fresh generator, two reports created at noon and 5 nanoseconds later: both have
  the id of noon, \<^verbatim>\<open>GetReport\<close> finds the first one only, and a line item added under
  the id goes to the first report.
\<close>

lemma same_second_example:
  "(case ReportGenerator_GenerateReport noon noon ''first'' [] FormatCSV NewReportGenerator of
      (g1, r1) \<Rightarrow>
        (case ReportGenerator_GenerateReport (noon\<lparr>nanosecond := 5\<rparr>) (noon\<lparr>nanosecond := 6\<rparr>)
                ''second'' [] FormatCSV g1 of
           (g2, r2) \<Rightarrow>
             rpt_ID r1 = ''rpt-20240309120000'' \<and> rpt_ID r2 = ''rpt-20240309120000'' \<and>
             map rpt_Title (reports g2) = [''first'', ''second''] \<and>
             GetReport g2 (rpt_ID r2) = Some 0 \<and>
             map (length \<circ> rpt_Metrics)
               (reports (ReportGenerator_AddMetric (rpt_ID r2) empty_MetricData g2)) = [1, 0]))"
  by (simp add: ReportGenerator_GenerateReport_def Let_def NewReportGenerator_def
      GetReport_def ReportGenerator_AddMetric_def noon_def format_eval)

section \<open>The renderings\<close>

lemma GenerateCSVReport_loop_eq:
  "GenerateCSVReport_loop ms s = s @ unlines (map csv_line ms)"
  by (induction ms arbitrary: s) (simp_all add: unlines_Cons unlines_Nil csv_line_def)

lemma GenerateMarkdownReport_unlines:
  "GenerateMarkdownReport report =
     unlines ([''# Security Metrics Report'', []] @ markdown_metadata report @
              [''## Executive Summary'', []] @
              [markdown_row ''Metric'' ''Value'', ''|--------|-------|''] @
              markdown_table_rows report @ [[]])"
  by (simp add: GenerateMarkdownReport_def unlines_def markdown_metadata_def
      markdown_table_rows_def markdown_row_def)

lemma csv_line_no_newline:
  "CHR 0x0A \<notin> set (md_Name m) \<Longrightarrow> CHR 0x0A \<notin> set (md_Status m) \<Longrightarrow>
   CHR 0x0A \<notin> set (md_Trend m) \<Longrightarrow> CHR 0x0A \<notin> set (csv_line m)"
  by (simp add: csv_line_def Sprintf_1f_no_newline)

text \<open>
  C6. The Markdown rendering of a report is a heading, the metadata lines with their bold
  labels (report id, title, creation time), a second heading and a table of two columns,
  Metric and Value, with exactly three rows: the overall health, the compliance score to
  one decimal with a percent sign, and the risk score to one decimal. It does not depend
  on the line items of the report. When the id, the title and the health of the report
  have no newline in them, these fifteen lines are the lines of the text.
\<close>

theorem markdown_three_rows:
  "GenerateMarkdownReport report =
     unlines ([''# Security Metrics Report'', []] @ markdown_metadata report @
              [''## Executive Summary'', []] @
              [markdown_row ''Metric'' ''Value'', ''|--------|-------|''] @
              markdown_table_rows report @ [[]])
   \<and> length (markdown_table_rows report) = 3
   \<and> GenerateMarkdownReport (report\<lparr>rpt_Metrics := ms, rpt_KPIS := ks\<rparr>) =
       GenerateMarkdownReport report
   \<and> (CHR 0x0A \<notin> set (rpt_ID report) \<and> CHR 0x0A \<notin> set (rpt_Title report) \<and>
      CHR 0x0A \<notin> set (ex_OverallHealth (rpt_Executive report)) \<longrightarrow>
        split_lines (GenerateMarkdownReport report) =
          [''# Security Metrics Report'', []] @ markdown_metadata report @
          [''## Executive Summary'', []] @
          [markdown_row ''Metric'' ''Value'', ''|--------|-------|''] @
          markdown_table_rows report @ [[]])"
proof (intro conjI impI)
  show "GenerateMarkdownReport report =
     unlines ([''# Security Metrics Report'', []] @ markdown_metadata report @
              [''## Executive Summary'', []] @
              [markdown_row ''Metric'' ''Value'', ''|--------|-------|''] @
              markdown_table_rows report @ [[]])"
    by (rule GenerateMarkdownReport_unlines)
  show "length (markdown_table_rows report) = 3"
    by (simp add: markdown_table_rows_def)
  show "GenerateMarkdownReport (report\<lparr>rpt_Metrics := ms, rpt_KPIS := ks\<rparr>) =
       GenerateMarkdownReport report"
    by (simp add: GenerateMarkdownReport_def)
next
  assume a: "CHR 0x0A \<notin> set (rpt_ID report) \<and> CHR 0x0A \<notin> set (rpt_Title report) \<and>
      CHR 0x0A \<notin> set (ex_OverallHealth (rpt_Executive report))"
  have "l \<in> set ([''# Security Metrics Report'', []] @ markdown_metadata report @
              [''## Executive Summary'', []] @
              [markdown_row ''Metric'' ''Value'', ''|--------|-------|''] @
              markdown_table_rows report @ [[]]) \<Longrightarrow> CHR 0x0A \<notin> set l" for l
    using a Format_datetime_no_newline [of "rpt_CreatedAt report"]
      Sprintf_1f_no_newline [of "ex_ComplianceScore (rpt_Executive report)"]
      Sprintf_1f_no_newline [of "ex_RiskScore (rpt_Executive report)"]
    by (auto simp: markdown_metadata_def markdown_table_rows_def markdown_row_def)
  then show "split_lines (GenerateMarkdownReport report) =
          [''# Security Metrics Report'', []] @ markdown_metadata report @
          [''## Executive Summary'', []] @
          [markdown_row ''Metric'' ''Value'', ''|--------|-------|''] @
          markdown_table_rows report @ [[]]"
    unfolding GenerateMarkdownReport_unlines by (rule split_lines_unlines)
qed

text \<open>
  The theorem on the example report, which has two metric line items and one KPI line
  item: the fifteen lines, three of them rows.
\<close>

theorem markdown_three_rows_witness:
  "CHR 0x0A \<notin> set (rpt_ID example_report) \<and> CHR 0x0A \<notin> set (rpt_Title example_report)
   \<and> CHR 0x0A \<notin> set (ex_OverallHealth (rpt_Executive example_report))
   \<and> length (rpt_Metrics example_report) = 2 \<and> length (rpt_KPIS example_report) = 1
   \<and> split_lines (GenerateMarkdownReport example_report) =
       [''# Security Metrics Report'', [],
        ''**Report ID:** rpt-20240309120000'', [],
        ''**Title:** Security Metrics Report'',
        ''**Created:** 2024-03-09 12:00:00'', [],
        ''## Executive Summary'', [],
        ''| Metric | Value |'',
        ''|--------|-------|'',
        ''| Overall Health | GOOD |'',
        ''| Compliance Score | 92.0% |'',
        ''| Risk Score | 45.5 |'', []]"
proof -
  have h: "CHR 0x0A \<notin> set (rpt_ID example_report)"
    "CHR 0x0A \<notin> set (rpt_Title example_report)"
    "CHR 0x0A \<notin> set (ex_OverallHealth (rpt_Executive example_report))"
    by (simp_all add: example_report_def zero_ExecutiveSummary_def)
  have n: "length (rpt_Metrics example_report) = 2" "length (rpt_KPIS example_report) = 1"
    by (simp_all add: example_report_def)
  from markdown_three_rows [of example_report] h
  have "split_lines (GenerateMarkdownReport example_report) =
          [''# Security Metrics Report'', []] @ markdown_metadata example_report @
          [''## Executive Summary'', []] @
          [markdown_row ''Metric'' ''Value'', ''|--------|-------|''] @
          markdown_table_rows example_report @ [[]]"
    by blast
  also have "\<dots> =
       [''# Security Metrics Report'', [],
        ''**Report ID:** rpt-20240309120000'', [],
        ''**Title:** Security Metrics Report'',
        ''**Created:** 2024-03-09 12:00:00'', [],
        ''## Executive Summary'', [],
        ''| Metric | Value |'',
        ''|--------|-------|'',
        ''| Overall Health | GOOD |'',
        ''| Compliance Score | 92.0% |'',
        ''| Risk Score | 45.5 |'', []]"
    by (simp add: markdown_metadata_def markdown_table_rows_def markdown_row_def
        example_report_def zero_ExecutiveSummary_def noon_def format_eval)
  finally show ?thesis using h n by blast
qed

text \<open>
  C7. The CSV rendering of a report is the header row and then one row for each metric
  line item, in order, with the value and the target to one decimal. A report with no
  metric line item gives the header row alone, and the KPI line items do not appear. When
  the names, statuses and trends of the metric line items have no newline in them, the
  text has one line for the header and one for each metric line item.
\<close>

theorem csv_header_and_metric_rows:
  "GenerateCSVReport report =
     unlines (''Metric Name,Value,Target,Status,Trend'' # map csv_line (rpt_Metrics report))
   \<and> GenerateCSVReport (report\<lparr>rpt_Metrics := []\<rparr>) =
       ''Metric Name,Value,Target,Status,Trend'' @ newline
   \<and> GenerateCSVReport (report\<lparr>rpt_KPIS := ks\<rparr>) = GenerateCSVReport report
   \<and> ((\<forall>m \<in> set (rpt_Metrics report).
         CHR 0x0A \<notin> set (md_Name m) \<and> CHR 0x0A \<notin> set (md_Status m) \<and>
         CHR 0x0A \<notin> set (md_Trend m)) \<longrightarrow>
       split_lines (GenerateCSVReport report) =
         ''Metric Name,Value,Target,Status,Trend'' # map csv_line (rpt_Metrics report))"
proof (intro conjI impI)
  show eq: "GenerateCSVReport report =
     unlines (''Metric Name,Value,Target,Status,Trend'' # map csv_line (rpt_Metrics report))"
    by (simp add: GenerateCSVReport_def GenerateCSVReport_loop_eq unlines_Cons)
  show "GenerateCSVReport (report\<lparr>rpt_Metrics := []\<rparr>) =
       ''Metric Name,Value,Target,Status,Trend'' @ newline"
    by (simp add: GenerateCSVReport_def)
  show "GenerateCSVReport (report\<lparr>rpt_KPIS := ks\<rparr>) = GenerateCSVReport report"
    by (simp add: GenerateCSVReport_def)
  assume a: "\<forall>m \<in> set (rpt_Metrics report).
         CHR 0x0A \<notin> set (md_Name m) \<and> CHR 0x0A \<notin> set (md_Status m) \<and>
         CHR 0x0A \<notin> set (md_Trend m)"
  have "l \<in> set (''Metric Name,Value,Target,Status,Trend'' # map csv_line (rpt_Metrics report))
      \<Longrightarrow> CHR 0x0A \<notin> set l" for l
    using a csv_line_no_newline by auto
  then show "split_lines (GenerateCSVReport report) =
         ''Metric Name,Value,Target,Status,Trend'' # map csv_line (rpt_Metrics report)"
    unfolding eq by (rule split_lines_unlines)
qed

text \<open>
  The theorem on the example report: the header and the rows of its two metric line
  items; its KPI line item is not there.
\<close>

theorem csv_header_and_metric_rows_witness:
  "map md_Name (rpt_Metrics example_report) =
     [''Vulnerabilities Open'', ''Critical Vulnerabilities'']
   \<and> length (rpt_KPIS example_report) = 1
   \<and> split_lines (GenerateCSVReport example_report) =
       [''Metric Name,Value,Target,Status,Trend'',
        ''Vulnerabilities Open,45.0,20.0,ABOVE_TARGET,IMPROVING'',
        ''Critical Vulnerabilities,3.0,0.0,ABOVE_TARGET,STABLE'']
   \<and> GenerateCSVReport (example_report\<lparr>rpt_Metrics := []\<rparr>) =
       ''Metric Name,Value,Target,Status,Trend'' @ newline"
proof -
  have h: "\<forall>m \<in> set (rpt_Metrics example_report).
      CHR 0x0A \<notin> set (md_Name m) \<and> CHR 0x0A \<notin> set (md_Status m) \<and>
      CHR 0x0A \<notin> set (md_Trend m)"
    by (simp add: example_report_def)
  have n: "length (rpt_KPIS example_report) = 1"
    by (simp add: example_report_def)
  from csv_header_and_metric_rows [of example_report] h
  have "split_lines (GenerateCSVReport example_report) =
      ''Metric Name,Value,Target,Status,Trend'' # map csv_line (rpt_Metrics example_report)"
    by blast
  also have "\<dots> =
       [''Metric Name,Value,Target,Status,Trend'',
        ''Vulnerabilities Open,45.0,20.0,ABOVE_TARGET,IMPROVING'',
        ''Critical Vulnerabilities,3.0,0.0,ABOVE_TARGET,STABLE'']"
    by (simp add: csv_line_def example_report_def format_eval)
  finally have l: "split_lines (GenerateCSVReport example_report) =
       [''Metric Name,Value,Target,Status,Trend'',
        ''Vulnerabilities Open,45.0,20.0,ABOVE_TARGET,IMPROVING'',
        ''Critical Vulnerabilities,3.0,0.0,ABOVE_TARGET,STABLE'']" .
  from csv_header_and_metric_rows [of example_report]
  have e: "GenerateCSVReport (example_report\<lparr>rpt_Metrics := []\<rparr>) =
       ''Metric Name,Value,Target,Status,Trend'' @ newline"
    by blast
  have m: "map md_Name (rpt_Metrics example_report) =
     [''Vulnerabilities Open'', ''Critical Vulnerabilities'']"
    by (simp add: example_report_def)
  from m n l e show ?thesis by blast
qed

end
